theory Spec2Isabelle
  imports Main "HOL-Library.AList"
begin

section \<open>The signalling handler of the SFU service (pkg/node/sfu/service.go)\<close>

text \<open>
  The handler \<open>Signal\<close> reads the messages of one connection in a loop, drives the
  peer of the media engine (package ion-sfu) and writes to the connection's
  outbound stream; the service keeps the map \<open>sigs\<close> from participant identifier to
  outbound stream, over which \<open>BroadcastStreamEvent\<close> fans out.

  The media engine, the gRPC stream, the JSON decoder and the helper \<open>ParseSDP\<close> are
  not part of service.go. They are parameters of the model: a record of operations
  over a state \<open>'w\<close> of the outside world, which every operation may change. What the
  handler does to the outside world is also written, in program order, into a trace of
  effects, so that properties about what was sent to whom, and which engine operation
  was invoked when, can be stated.
\<close>

subsection \<open>Errors and status codes\<close>

text \<open>The gRPC status codes the handler uses or compares against.\<close>

datatype codes = Canceled | Unknown | Internal | OtherCode nat

text \<open>
  Go \<open>error\<close> values. The three sentinels of ion-sfu are compared by identity in the
  source (\<open>switch err\<close>); \<open>Errorf c p e\<close> is \<open>status.Errorf(c, p + e.Error())\<close>, the status
  the handler builds from an error \<open>e\<close> and a message prefix \<open>p\<close>.
\<close>

datatype go_error =
    ErrTransportExists
  | ErrOfferIgnored
  | ErrNoTransportEstablished
  | io_EOF
  | GrpcStatus codes string
  | OtherError string
  | Errorf codes string go_error

text \<open>\<open>status.FromError(err)\<close> followed by \<open>Code()\<close>: an error that is no status has code Unknown.\<close>

fun status_Code :: "go_error \<Rightarrow> codes" where
  "status_Code (GrpcStatus c m) = c"
| "status_Code (Errorf c p e) = c"
| "status_Code e = Unknown"

text \<open>The two codes of package pkg/error that the handler puts into an Error message.\<close>

datatype error_code = InternalError | UnsupportedMediaType

text \<open>\<open>fmt.Sprintf(p + "%v", err)\<close>, the reason of an Error message.\<close>

datatype reason = Sprintf string go_error

subsection \<open>Messages\<close>

record Track =
  Id' :: string
  Kind :: string
  Muted :: bool
  Rid :: string

record Stream =
  Uid :: string
  Msid :: string
  Tracks :: "Track list"

datatype StreamEvent_State = ADD | REMOVE

datatype Target = Target_PUBLISHER | Target_SUBSCRIBER | Target_other int

datatype Command =
    UpdateSettings_Subcription "string list" bool
  | UpdateSettings_other

text \<open>
  \<open>rtc.Signalling\<close> with its payload; the same type travels in both directions.
  \<open>Signalling_Description target sdp type\<close>, \<open>Signalling_Trickle init target\<close>,
  \<open>Signalling_StreamEvent state streams\<close>, \<open>Signalling_Reply success\<close>.
\<close>

datatype Signalling =
    Signalling_Join string string
  | Signalling_Reply bool
  | Signalling_Description Target string string
  | Signalling_Trickle string Target
  | Signalling_UpdateSettings Command
  | Signalling_StreamEvent StreamEvent_State "Stream list"
  | Signalling_Error error_code reason
  | Signalling_nil

subsection \<open>The media engine and the other collaborators\<close>

datatype SDPType = SDPTypeUnknown | SDPTypeOffer | SDPTypePranswer | SDPTypeAnswer | SDPTypeRollback

record SessionDescription =
  SDP :: string
  Type :: SDPType

type_synonym ICECandidateInit = string

record TrackRemote =
  Track_StreamID :: string
  Track_ID :: string
  Track_Kind :: string
  Track_RID :: string

record Receiver =
  Receiver_TrackID :: string

record PublisherTrack =
  Track :: TrackRemote
  Receiver :: Receiver

text \<open>A peer of the session as the handler reads it: \<open>p.ID()\<close> and \<open>p.Publisher().PublisherTracks()\<close>.\<close>

record Peer =
  Peer_ID :: string
  PublisherTracks :: "PublisherTrack list"

record DownTrack =
  DownTrack_ID :: string

text \<open>An outbound stream (\<open>rtc.RTC_SignalServer\<close>) is identified by a number.\<close>

type_synonym sink = nat

text \<open>
  The operations of the collaborators, over the state \<open>'w\<close> of the outside world.
  \<open>peer_Session w\<close> is \<open>None\<close> when \<open>peer.Session()\<close> is nil and otherwise holds
  \<open>peer.Session().Peers()\<close>. \<open>Subscriber_DownTracks\<close> is the map returned by
  \<open>peer.Subscriber().DownTracks()\<close>, whose slices may hold nil entries.
\<close>

record 'w env =
  NewPeer :: "'w \<Rightarrow> 'w"
  peer_ID :: "'w \<Rightarrow> string"
  peer_Session :: "'w \<Rightarrow> Peer list option"
  peer_Join :: "string \<Rightarrow> string \<Rightarrow> 'w \<Rightarrow> go_error option \<times> 'w"
  peer_Answer :: "SessionDescription \<Rightarrow> 'w \<Rightarrow> (go_error + SessionDescription) \<times> 'w"
  peer_SetRemoteDescription :: "SessionDescription \<Rightarrow> 'w \<Rightarrow> go_error option \<times> 'w"
  peer_Trickle :: "ICECandidateInit \<Rightarrow> Target \<Rightarrow> 'w \<Rightarrow> go_error option \<times> 'w"
  peer_Close :: "'w \<Rightarrow> 'w"
  Publisher_OnPublisherTrack :: "'w \<Rightarrow> 'w"
  Router_AddDownTrack :: "Receiver \<Rightarrow> 'w \<Rightarrow> 'w"
  Subscriber_DownTracks :: "'w \<Rightarrow> (string \<times> DownTrack option list) list"
  Subscriber_RemoveDownTrack :: "string \<Rightarrow> DownTrack \<Rightarrow> 'w \<Rightarrow> 'w"
  DownTrack_Stop :: "DownTrack \<Rightarrow> 'w \<Rightarrow> 'w"
  Subscriber_Negotiate :: "'w \<Rightarrow> 'w"
  Send :: "sink \<Rightarrow> Signalling \<Rightarrow> 'w \<Rightarrow> go_error option \<times> 'w"
  json_Unmarshal :: "string \<Rightarrow> go_error + ICECandidateInit"
  ParseSDP :: "string \<Rightarrow> string \<Rightarrow> Stream list \<times> go_error option"
  NewSDPType :: "string \<Rightarrow> SDPType"
  SDPType_String :: "SDPType \<Rightarrow> string"

subsection \<open>State and effects\<close>

datatype engine_call =
    C_NewPeer
  | C_Join string string
  | C_Answer SessionDescription
  | C_SetRemoteDescription SessionDescription
  | C_Trickle ICECandidateInit Target
  | C_Close
  | C_OnPublisherTrack
  | C_AddDownTrack Receiver
  | C_RemoveDownTrack string DownTrack
  | C_Stop DownTrack
  | C_Negotiate

text \<open>
  \<open>Sent k m\<close>: \<open>Send(m)\<close> was invoked on stream \<open>k\<close>. \<open>Broadcast s xs\<close>: \<open>BroadcastStreamEvent\<close>
  was entered with that event (the sends to the registered streams follow it).
  \<open>Register\<close> and \<open>Unregister\<close>: the writes to \<open>s.sigs\<close>.
\<close>

datatype effect =
    Sent sink Signalling
  | Call engine_call
  | Broadcast StreamEvent_State "Stream list"
  | Register string sink
  | Unregister string

text \<open>
  \<open>sigs\<close> is the field \<open>s.sigs\<close> of the service (a Go map, here an association list with
  distinct keys, iterated in list order; Go's iteration order is unspecified), \<open>streams\<close>
  the local variable of \<open>Signal\<close>.
\<close>

record 'w state =
  world :: 'w
  sigs :: "(string \<times> sink) list"
  streams :: "Stream list"
  trace :: "effect list"

text \<open>How a step of the handler ends: the loop goes on, the handler returns, or Go panics.\<close>

datatype ('a, 'b) outcome = Continue 'a | Return "go_error option" 'b | Panic 'b

definition emit :: "effect \<Rightarrow> 'w state \<Rightarrow> 'w state" where
  "emit e st = st\<lparr>trace := trace st @ [e]\<rparr>"

definition do_call :: "engine_call \<Rightarrow> ('w \<Rightarrow> 'w) \<Rightarrow> 'w state \<Rightarrow> 'w state" where
  "do_call c f st = emit (Call c) (st\<lparr>world := f (world st)\<rparr>)"

definition do_call_res :: "engine_call \<Rightarrow> ('w \<Rightarrow> 'r \<times> 'w) \<Rightarrow> 'w state \<Rightarrow> 'r \<times> 'w state" where
  "do_call_res c f st = (fst (f (world st)), emit (Call c) (st\<lparr>world := snd (f (world st))\<rparr>))"

text \<open>\<open>sig.Send(m)\<close> on stream \<open>k\<close>.\<close>

definition send :: "'w env \<Rightarrow> sink \<Rightarrow> Signalling \<Rightarrow> 'w state \<Rightarrow> go_error option \<times> 'w state" where
  "send env k m st =
     (fst (Send env k m (world st)), emit (Sent k m) (st\<lparr>world := snd (Send env k m (world st))\<rparr>))"

subsection \<open>BroadcastStreamEvent\<close>

text \<open>The loop over \<open>s.sigs\<close>: the result of each \<open>Send\<close> is dropped.\<close>

fun broadcast_loop :: "'w env \<Rightarrow> StreamEvent_State \<Rightarrow> Stream list \<Rightarrow> (string \<times> sink) list \<Rightarrow> 'w state \<Rightarrow> 'w state" where
  "broadcast_loop env s xs [] st = st"
| "broadcast_loop env s xs ((u, sig) # rest) st =
     broadcast_loop env s xs rest (snd (send env sig (Signalling_StreamEvent s xs) st))"

definition BroadcastStreamEvent :: "'w env \<Rightarrow> StreamEvent_State \<Rightarrow> Stream list \<Rightarrow> 'w state \<Rightarrow> 'w state" where
  "BroadcastStreamEvent env s xs st = broadcast_loop env s xs (sigs st) (emit (Broadcast s xs) st)"

subsection \<open>Join\<close>

text \<open>
  The body of the loop over the published tracks of one other peer (lines 193 to 209):
  the stream of the track's stream identifier is created on first sight with
  \<open>Uid: uid\<close>, the identifier of the Join message, and the track is appended to it.
\<close>

definition add_pubTrack :: "string \<Rightarrow> PublisherTrack \<Rightarrow> (string \<times> Stream) list \<Rightarrow> (string \<times> Stream) list" where
  "add_pubTrack uid pubTrack streamMap =
     (let streamID = Track_StreamID (Track pubTrack);
          stream = (case map_of streamMap streamID of
                      None \<Rightarrow> \<lparr>Uid = uid, Msid = streamID, Tracks = []\<rparr>
                    | Some s \<Rightarrow> s)
      in AList.update streamID
           (stream\<lparr>Tracks := Tracks stream @
              [\<lparr>Id' = Track_ID (Track pubTrack), Kind = Track_Kind (Track pubTrack),
                Muted = False, Rid = Track_RID (Track pubTrack)\<rparr>]\<rparr>)
           streamMap)"

fun add_pubTracks :: "string \<Rightarrow> PublisherTrack list \<Rightarrow> (string \<times> Stream) list \<Rightarrow> (string \<times> Stream) list" where
  "add_pubTracks uid [] streamMap = streamMap"
| "add_pubTracks uid (t # ts) streamMap = add_pubTracks uid ts (add_pubTrack uid t streamMap)"

text \<open>The loop over \<open>peer.Session().Peers()\<close> (lines 191 to 211); \<open>pid\<close> is \<open>peer.ID()\<close>.\<close>

fun build_streamMap :: "string \<Rightarrow> string \<Rightarrow> Peer list \<Rightarrow> (string \<times> Stream) list \<Rightarrow> (string \<times> Stream) list" where
  "build_streamMap pid uid [] streamMap = streamMap"
| "build_streamMap pid uid (p # ps) streamMap =
     build_streamMap pid uid ps
       (if pid \<noteq> Peer_ID p then add_pubTracks uid (PublisherTracks p) streamMap else streamMap)"

definition otherStreams :: "string \<Rightarrow> string \<Rightarrow> Peer list \<Rightarrow> Stream list" where
  "otherStreams pid uid peers = map snd (build_streamMap pid uid peers [])"

text \<open>
  Lines 177 to 233: what a Join does once \<open>peer.Join\<close> has returned without a fatal
  error. The results of the two sends are dropped by the source.
\<close>

definition join_reply :: "'w env \<Rightarrow> sink \<Rightarrow> string \<Rightarrow> 'w state \<Rightarrow> ('w state, 'w state) outcome" where
  "join_reply env sigStream uid st =
     (let st1 = do_call C_OnPublisherTrack (Publisher_OnPublisherTrack env) st;
          st2 = snd (send env sigStream (Signalling_Reply True) st1)
      in case peer_Session env (world st2) of
           None \<Rightarrow> Panic st2
         | Some peers \<Rightarrow>
             (let event = otherStreams (peer_ID env (world st2)) uid peers;
                  st3 = snd (send env sigStream (Signalling_StreamEvent ADD event) st2);
                  pid = peer_ID env (world st3)
              in Continue (emit (Register pid sigStream)
                             (st3\<lparr>sigs := AList.update pid sigStream (sigs st3)\<rparr>))))"

text \<open>Lines 106 to 233.\<close>

definition handle_Join :: "'w env \<Rightarrow> sink \<Rightarrow> string \<Rightarrow> string \<Rightarrow> 'w state \<Rightarrow> ('w state, 'w state) outcome" where
  "handle_Join env sigStream sid uid st =
     (case do_call_res (C_Join sid uid) (peer_Join env sid uid) st of
        (None, st1) \<Rightarrow> join_reply env sigStream uid st1
      | (Some err, st1) \<Rightarrow>
          if err = ErrTransportExists \<or> err = ErrOfferIgnored then
            (case send env sigStream
                    (Signalling_Error InternalError (Sprintf ''join error: '' err)) st1 of
               (Some serr, st2) \<Rightarrow> Return (Some (Errorf Internal [] serr)) st2
             | (None, st2) \<Rightarrow> join_reply env sigStream uid st2)
          else Return (Some (Errorf Unknown [] err)) st1)"

subsection \<open>Description\<close>

text \<open>
  Lines 235 to 305. In the offer case the source declares a new \<open>err\<close>, so the check
  after the switch only sees the result of \<open>SetRemoteDescription\<close>; the error of
  \<open>ParseSDP\<close> is logged and dropped.
\<close>

definition handle_Description :: "'w env \<Rightarrow> sink \<Rightarrow> string \<Rightarrow> string \<Rightarrow> 'w state \<Rightarrow> ('w state, 'w state) outcome" where
  "handle_Description env sigStream sdp typ st =
     (let desc = \<lparr>SDP = sdp, Type = NewSDPType env typ\<rparr>
      in case Type desc of
           SDPTypeOffer \<Rightarrow>
             (case do_call_res (C_Answer desc) (peer_Answer env desc) st of
                (Inl err, st1) \<Rightarrow> Return (Some (Errorf Internal ''answer error: '' err)) st1
              | (Inr answer, st1) \<Rightarrow>
                  (case send env sigStream
                          (Signalling_Description Target_PUBLISHER (SDP answer)
                             (SDPType_String env (Type answer))) st1 of
                     (Some serr, st2) \<Rightarrow> Return (Some (Errorf Internal [] serr)) st2
                   | (None, st2) \<Rightarrow>
                       (let newStreams = fst (ParseSDP env (peer_ID env (world st2)) (SDP desc))
                        in if length newStreams > 0
                           then Continue (BroadcastStreamEvent env ADD newStreams
                                            (st2\<lparr>streams := newStreams\<rparr>))
                           else Continue st2)))
         | SDPTypeAnswer \<Rightarrow>
             (case do_call_res (C_SetRemoteDescription desc) (peer_SetRemoteDescription env desc) st of
                (None, st1) \<Rightarrow> Continue st1
              | (Some err, st1) \<Rightarrow>
                  if err = ErrNoTransportEstablished then
                    (case send env sigStream
                            (Signalling_Error UnsupportedMediaType
                               (Sprintf ''set remote description error: '' err)) st1 of
                       (Some serr, st2) \<Rightarrow> Return (Some (Errorf Internal [] serr)) st2
                     | (None, st2) \<Rightarrow> Continue st2)
                  else Return (Some (Errorf Unknown [] err)) st1)
         | _ \<Rightarrow> Continue st)"

subsection \<open>Trickle\<close>

text \<open>Lines 307 to 347.\<close>

definition handle_Trickle :: "'w env \<Rightarrow> sink \<Rightarrow> string \<Rightarrow> Target \<Rightarrow> 'w state \<Rightarrow> ('w state, 'w state) outcome" where
  "handle_Trickle env sigStream init target st =
     (case json_Unmarshal env init of
        Inl err \<Rightarrow>
          (case send env sigStream
                  (Signalling_Error InternalError (Sprintf ''unmarshal ice candidate error:  '' err)) st of
             (Some serr, st1) \<Rightarrow> Return (Some (Errorf Internal [] serr)) st1
           | (None, st1) \<Rightarrow> Continue st1)
      | Inr candidate \<Rightarrow>
          (case do_call_res (C_Trickle candidate target) (peer_Trickle env candidate target) st of
             (None, st1) \<Rightarrow> Continue st1
           | (Some err, st1) \<Rightarrow>
               if err = ErrNoTransportEstablished then
                 (case send env sigStream
                         (Signalling_Error InternalError (Sprintf ''trickle error:  '' err)) st1 of
                    (Some serr, st2) \<Rightarrow> Return (Some (Errorf Internal [] serr)) st2
                  | (None, st2) \<Rightarrow> Continue st2)
               else Return (Some (Errorf Unknown ''negotiate error: '' err)) st1))"

subsection \<open>UpdateSettings\<close>

text \<open>Lines 360 to 366: the published tracks of one other peer, for one requested track id.\<close>

fun add_down_tracks :: "'w env \<Rightarrow> string \<Rightarrow> PublisherTrack list \<Rightarrow> 'w state \<times> bool \<Rightarrow> 'w state \<times> bool" where
  "add_down_tracks env trackId [] acc = acc"
| "add_down_tracks env trackId (t # ts) (st, needNegotiate) =
     add_down_tracks env trackId ts
       (if Receiver_TrackID (Receiver t) = trackId
        then (do_call (C_AddDownTrack (Receiver t)) (Router_AddDownTrack env (Receiver t)) st, True)
        else (st, needNegotiate))"

text \<open>Lines 358 to 368: the peers of the session, for one requested track id.\<close>

fun add_from_peers :: "'w env \<Rightarrow> string \<Rightarrow> Peer list \<Rightarrow> 'w state \<times> bool \<Rightarrow> 'w state \<times> bool" where
  "add_from_peers env trackId [] acc = acc"
| "add_from_peers env trackId (p # ps) (st, needNegotiate) =
     add_from_peers env trackId ps
       (if Peer_ID p \<noteq> peer_ID env (world st)
        then add_down_tracks env trackId (PublisherTracks p) (st, needNegotiate)
        else (st, needNegotiate))"

text \<open>Lines 372 to 378: the down tracks of one stream, for one requested track id.\<close>

fun remove_down_tracks :: "'w env \<Rightarrow> string \<Rightarrow> string \<Rightarrow> DownTrack option list \<Rightarrow> 'w state \<times> bool \<Rightarrow> 'w state \<times> bool" where
  "remove_down_tracks env trackId streamID [] acc = acc"
| "remove_down_tracks env trackId streamID (d # ds) (st, needNegotiate) =
     remove_down_tracks env trackId streamID ds
       (case d of
          None \<Rightarrow> (st, needNegotiate)
        | Some downTrack \<Rightarrow>
            if DownTrack_ID downTrack = trackId
            then (do_call (C_Stop downTrack) (DownTrack_Stop env downTrack)
                    (do_call (C_RemoveDownTrack streamID downTrack)
                       (Subscriber_RemoveDownTrack env streamID downTrack) st), True)
            else (st, needNegotiate))"

text \<open>
  Lines 371 to 379: the map of down tracks, read once when the range statement is
  entered, for one requested track id.
\<close>

fun remove_from_streams :: "'w env \<Rightarrow> string \<Rightarrow> (string \<times> DownTrack option list) list \<Rightarrow> 'w state \<times> bool \<Rightarrow> 'w state \<times> bool" where
  "remove_from_streams env trackId [] acc = acc"
| "remove_from_streams env trackId ((streamID, downTracks) # rest) acc =
     remove_from_streams env trackId rest (remove_down_tracks env trackId streamID downTracks acc)"

text \<open>
  Lines 355 to 381: the loop over the requested track ids. \<open>peer.Session().Peers()\<close> on a
  nil session is a call on a nil interface, a panic.
\<close>

fun subscription_loop :: "'w env \<Rightarrow> bool \<Rightarrow> string list \<Rightarrow> 'w state \<times> bool \<Rightarrow> ('w state \<times> bool, 'w state) outcome" where
  "subscription_loop env subscribe [] acc = Continue acc"
| "subscription_loop env subscribe (trackId # ids) (st, needNegotiate) =
     (if subscribe then
        (case peer_Session env (world st) of
           None \<Rightarrow> Panic st
         | Some peers \<Rightarrow>
             subscription_loop env subscribe ids (add_from_peers env trackId peers (st, needNegotiate)))
      else
        subscription_loop env subscribe ids
          (remove_from_streams env trackId (Subscriber_DownTracks env (world st)) (st, needNegotiate)))"

text \<open>Lines 349 to 386.\<close>

definition handle_UpdateSettings :: "'w env \<Rightarrow> Command \<Rightarrow> 'w state \<Rightarrow> ('w state, 'w state) outcome" where
  "handle_UpdateSettings env cmd st =
     (case cmd of
        UpdateSettings_Subcription trackIds subscribe \<Rightarrow>
          (case subscription_loop env subscribe trackIds (st, False) of
             Continue (st1, needNegotiate) \<Rightarrow>
               Continue (if needNegotiate then do_call C_Negotiate (Subscriber_Negotiate env) st1 else st1)
           | Return e st1 \<Rightarrow> Return e st1
           | Panic st1 \<Rightarrow> Panic st1)
      | UpdateSettings_other \<Rightarrow> Continue st)"

subsection \<open>The message loop\<close>

text \<open>The type switch on the payload (line 105): a payload without a case is skipped.\<close>

fun handle :: "'w env \<Rightarrow> sink \<Rightarrow> Signalling \<Rightarrow> 'w state \<Rightarrow> ('w state, 'w state) outcome" where
  "handle env sigStream (Signalling_Join sid uid) st = handle_Join env sigStream sid uid st"
| "handle env sigStream (Signalling_Description target sdp typ) st = handle_Description env sigStream sdp typ st"
| "handle env sigStream (Signalling_Trickle init target) st = handle_Trickle env sigStream init target st"
| "handle env sigStream (Signalling_UpdateSettings cmd) st = handle_UpdateSettings env cmd st"
| "handle env sigStream m st = Continue st"

text \<open>
  The loop of lines 86 to 387 over the results of \<open>sigStream.Recv()\<close>, given as a list:
  \<open>Inl err\<close> is a failed read, \<open>Inr m\<close> a message. When the list is used up the handler is
  blocked in \<open>Recv\<close>, which is the outcome \<open>Continue\<close>.
\<close>

fun recv_loop :: "'w env \<Rightarrow> sink \<Rightarrow> (go_error + Signalling) list \<Rightarrow> 'w state \<Rightarrow> ('w state, 'w state) outcome" where
  "recv_loop env sigStream [] st = Continue st"
| "recv_loop env sigStream (Inl err # rest) st =
     (let st1 = do_call C_Close (peer_Close env) st
      in if err = io_EOF then Return None st1
         else if status_Code err = Canceled then Return None st1
         else Return (Some err) st1)"
| "recv_loop env sigStream (Inr m # rest) st =
     (case handle env sigStream m st of
        Continue st1 \<Rightarrow> recv_loop env sigStream rest st1
      | Return e st1 \<Rightarrow> Return e st1
      | Panic st1 \<Rightarrow> Panic st1)"

text \<open>The deferred function of lines 67 to 84.\<close>

definition deferred :: "'w env \<Rightarrow> 'w state \<Rightarrow> 'w state" where
  "deferred env st =
     (case peer_Session env (world st) of
        None \<Rightarrow> st
      | Some peers \<Rightarrow>
          (let pid = peer_ID env (world st);
               st1 = emit (Unregister pid) (st\<lparr>sigs := AList.delete pid (sigs st)\<rparr>)
           in if length (streams st1) > 0
              then BroadcastStreamEvent env REMOVE (streams st1) st1
              else st1))"

text \<open>
  The state of the handler when the connection opens: a new peer (line 64) and no
  streams yet (line 65). \<open>s0\<close> is the map \<open>s.sigs\<close> and \<open>w0\<close> the outside world at
  that moment.
\<close>

definition initial :: "'w env \<Rightarrow> (string \<times> sink) list \<Rightarrow> 'w \<Rightarrow> 'w state" where
  "initial env s0 w0 = do_call C_NewPeer (NewPeer env) \<lparr>world = w0, sigs = s0, streams = [], trace = []\<rparr>"

text \<open>
  \<open>Signal\<close>: the loop, and the deferred function when the handler returns or panics.
\<close>

definition Signal :: "'w env \<Rightarrow> sink \<Rightarrow> (string \<times> sink) list \<Rightarrow> 'w \<Rightarrow> (go_error + Signalling) list \<Rightarrow> ('w state, 'w state) outcome" where
  "Signal env sigStream s0 w0 inputs =
     (case recv_loop env sigStream inputs (initial env s0 w0) of
        Continue st \<Rightarrow> Continue st
      | Return e st \<Rightarrow> Return e (deferred env st)
      | Panic st \<Rightarrow> Panic (deferred env st))"

subsection \<open>Reading outcomes and traces\<close>

text \<open>The state in which a step or a run ended.\<close>

fun final :: "('a, 'a) outcome \<Rightarrow> 'a" where
  "final (Continue st) = st"
| "final (Return e st) = st"
| "final (Panic st) = st"

text \<open>The status code reported to the caller of the handler, when it returned an error.\<close>

fun returned_code :: "('a, 'b) outcome \<Rightarrow> codes option" where
  "returned_code (Return (Some e) st) = Some (status_Code e)"
| "returned_code r = None"

text \<open>The handler has not ended: it waits in \<open>Recv\<close> for the next message.\<close>

fun blocked :: "('a, 'b) outcome \<Rightarrow> bool" where
  "blocked (Continue st) = True"
| "blocked r = False"

text \<open>The state in which the loop of \<open>Signal\<close> is left, before the deferred function runs.\<close>

definition exit_state :: "'w env \<Rightarrow> sink \<Rightarrow> (string \<times> sink) list \<Rightarrow> 'w \<Rightarrow> (go_error + Signalling) list \<Rightarrow> 'w state" where
  "exit_state env sigStream s0 w0 inputs = final (recv_loop env sigStream inputs (initial env s0 w0))"

text \<open>The effects between an earlier state and a later one.\<close>

definition new_effects :: "'w state \<Rightarrow> 'w state \<Rightarrow> effect list" where
  "new_effects st st' = drop (length (trace st)) (trace st')"

text \<open>The messages written to the stream \<open>k\<close>, in order.\<close>

fun sent_to :: "sink \<Rightarrow> effect list \<Rightarrow> Signalling list" where
  "sent_to k [] = []"
| "sent_to k (Sent k' m # tr) = (if k' = k then m # sent_to k tr else sent_to k tr)"
| "sent_to k (e # tr) = sent_to k tr"

text \<open>The stream lists that were broadcast with the state \<open>s\<close>, in order.\<close>

fun broadcasts :: "StreamEvent_State \<Rightarrow> effect list \<Rightarrow> Stream list list" where
  "broadcasts s [] = []"
| "broadcasts s (Broadcast s' xs # tr) = (if s' = s then xs # broadcasts s tr else broadcasts s tr)"
| "broadcasts s (e # tr) = broadcasts s tr"

text \<open>The writes of a stream into \<open>s.sigs\<close>, in order.\<close>

fun registrations :: "effect list \<Rightarrow> (string \<times> sink) list" where
  "registrations [] = []"
| "registrations (Register u k # tr) = (u, k) # registrations tr"
| "registrations (e # tr) = registrations tr"

text \<open>
  The requested track id is the track id of a receiver published by one of the peers
  \<open>ps\<close> other than this one.
\<close>

definition peer_matches :: "'w env \<Rightarrow> 'w \<Rightarrow> string \<Rightarrow> Peer list \<Rightarrow> bool" where
  "peer_matches env w trackId ps =
     list_ex (\<lambda>p. Peer_ID p \<noteq> peer_ID env w \<and>
                   list_ex (\<lambda>t. Receiver_TrackID (Receiver t) = trackId) (PublisherTracks p)) ps"

text \<open>Some requested track id is published by another peer of the session.\<close>

definition published_match :: "'w env \<Rightarrow> 'w \<Rightarrow> string list \<Rightarrow> bool" where
  "published_match env w trackIds =
     (case peer_Session env w of
        None \<Rightarrow> False
      | Some peers \<Rightarrow> list_ex (\<lambda>trackId. peer_matches env w trackId peers) trackIds)"

text \<open>Some requested track id is the id of a down track of this peer's subscriber.\<close>

definition forwarded_match :: "'w env \<Rightarrow> 'w \<Rightarrow> string list \<Rightarrow> bool" where
  "forwarded_match env w trackIds =
     list_ex (\<lambda>trackId.
       list_ex (\<lambda>(streamID, downTracks).
                  list_ex (\<lambda>d. case d of None \<Rightarrow> False | Some downTrack \<Rightarrow> DownTrack_ID downTrack = trackId)
                    downTracks)
         (Subscriber_DownTracks env w)) trackIds"

text \<open>
  The later state extends the trace of the earlier one by engine operations other than a
  renegotiation, and has the same streams and the same map of outbound streams.
\<close>

definition extends_by_calls :: "'w state \<Rightarrow> 'w state \<Rightarrow> bool" where
  "extends_by_calls st st' =
     (\<exists>cs. trace st' = trace st @ map Call cs \<and> C_Negotiate \<notin> set cs
           \<and> streams st' = streams st \<and> sigs st' = sigs st)"

text \<open>
  The invariant of the loop on the variable \<open>streams\<close>: nothing was broadcast as REMOVE,
  no empty list was broadcast as ADD, and \<open>streams\<close> holds the list of the latest
  broadcast ADD, or is empty when there was none.
\<close>

definition streams_recorded :: "'w state \<Rightarrow> bool" where
  "streams_recorded st =
     (broadcasts REMOVE (trace st) = [] \<and> [] \<notin> set (broadcasts ADD (trace st))
      \<and> streams st = (if broadcasts ADD (trace st) = [] then [] else last (broadcasts ADD (trace st))))"

subsection \<open>A simulated environment\<close>

text \<open>
  A small media engine and transport on which the handler can be run: the peer takes
  the identifier of the Join message and has a session once joined; the room, the
  forwarded tracks, the errors of the engine and the closed streams are fixed by a
  scenario. The track extractor yields one stream, named by the offer body, for
  every offer with a body.
\<close>

record sim_world =
  w_id :: string
  w_joined :: bool

record scenario =
  room :: "Peer list"
  forwarded :: "(string \<times> DownTrack option list) list"
  join_err :: "go_error option"
  answer_err :: "go_error option"
  trickle_err :: "go_error option"
  closed_sinks :: "sink list"

definition sim_env :: "scenario \<Rightarrow> sim_world env" where
  "sim_env sc =
     \<lparr>NewPeer = (\<lambda>w. w),
      peer_ID = w_id,
      peer_Session = (\<lambda>w. if w_joined w then Some (room sc) else None),
      peer_Join = (\<lambda>sid uid w. case join_err sc of
                       None \<Rightarrow> (None, w\<lparr>w_id := uid, w_joined := True\<rparr>)
                     | Some e \<Rightarrow> (Some e, w)),
      peer_Answer = (\<lambda>d w. case answer_err sc of
                       None \<Rightarrow> (Inr \<lparr>SDP = ''v=0 answer'', Type = SDPTypeAnswer\<rparr>, w)
                     | Some e \<Rightarrow> (Inl e, w)),
      peer_SetRemoteDescription =
        (\<lambda>d w. (if w_joined w then None else Some ErrNoTransportEstablished, w)),
      peer_Trickle = (\<lambda>c t w. (trickle_err sc, w)),
      peer_Close = (\<lambda>w. w),
      Publisher_OnPublisherTrack = (\<lambda>w. w),
      Router_AddDownTrack = (\<lambda>r w. w),
      Subscriber_DownTracks = (\<lambda>w. forwarded sc),
      Subscriber_RemoveDownTrack = (\<lambda>s d w. w),
      DownTrack_Stop = (\<lambda>d w. w),
      Subscriber_Negotiate = (\<lambda>w. w),
      Send = (\<lambda>k m w. (if k \<in> set (closed_sinks sc)
                         then Some (GrpcStatus (OtherCode 14) ''transport is closing'')
                         else None, w)),
      json_Unmarshal = (\<lambda>s. if s = [] then Inl (OtherError ''unexpected end of JSON input'')
                             else Inr s),
      ParseSDP = (\<lambda>pid sdp. (if sdp = [] then [] else [\<lparr>Uid = pid, Msid = sdp, Tracks = []\<rparr>], None)),
      NewSDPType = (\<lambda>s. if s = ''offer'' then SDPTypeOffer
                         else if s = ''pranswer'' then SDPTypePranswer
                         else if s = ''answer'' then SDPTypeAnswer
                         else if s = ''rollback'' then SDPTypeRollback
                         else SDPTypeUnknown),
      SDPType_String = (\<lambda>t. case t of
                           SDPTypeOffer \<Rightarrow> ''offer''
                         | SDPTypePranswer \<Rightarrow> ''pranswer''
                         | SDPTypeAnswer \<Rightarrow> ''answer''
                         | SDPTypeRollback \<Rightarrow> ''rollback''
                         | SDPTypeUnknown \<Rightarrow> ''unknown'')\<rparr>"

definition quiet :: scenario where
  "quiet = \<lparr>room = [], forwarded = [], join_err = None, answer_err = None,
            trickle_err = None, closed_sinks = []\<rparr>"

definition w_init :: sim_world where
  "w_init = \<lparr>w_id = [], w_joined = False\<rparr>"

text \<open>Bob publishes one audio track \<open>t1\<close> in the stream \<open>s1\<close>.\<close>

definition bob :: Peer where
  "bob = \<lparr>Peer_ID = ''bob'',
          PublisherTracks =
            [\<lparr>Track = \<lparr>Track_StreamID = ''s1'', Track_ID = ''t1'', Track_Kind = ''audio'', Track_RID = []\<rparr>,
              Receiver = \<lparr>Receiver_TrackID = ''t1''\<rparr>\<rparr>]\<rparr>"

text \<open>Carol publishes one video track \<open>t2\<close> in the stream \<open>s2\<close>.\<close>

definition carol :: Peer where
  "carol = \<lparr>Peer_ID = ''carol'',
            PublisherTracks =
              [\<lparr>Track = \<lparr>Track_StreamID = ''s2'', Track_ID = ''t2'', Track_Kind = ''video'', Track_RID = []\<rparr>,
                Receiver = \<lparr>Receiver_TrackID = ''t2''\<rparr>\<rparr>]\<rparr>"

text \<open>A state of the handler of Alice after her Join, with Bob's stream registered too.\<close>

definition alice_joined :: "sim_world state" where
  "alice_joined =
     \<lparr>world = \<lparr>w_id = ''alice'', w_joined = True\<rparr>,
      sigs = [(''bob'', 2), (''alice'', 1)], streams = [], trace = []\<rparr>"

definition alice_new :: "sim_world state" where
  "alice_new = \<lparr>world = w_init, sigs = [(''bob'', 2)], streams = [], trace = []\<rparr>"

section \<open>Properties\<close>

subsection \<open>The primitive steps\<close>

lemma emit_simps [simp]:
  "trace (emit e st) = trace st @ [e]"
  "world (emit e st) = world st"
  "sigs (emit e st) = sigs st"
  "streams (emit e st) = streams st"
  by (simp_all add: emit_def)

lemma do_call_simps [simp]:
  "trace (do_call c f st) = trace st @ [Call c]"
  "world (do_call c f st) = f (world st)"
  "sigs (do_call c f st) = sigs st"
  "streams (do_call c f st) = streams st"
  by (simp_all add: do_call_def)

lemma do_call_res_simps [simp]:
  "fst (do_call_res c f st) = fst (f (world st))"
  "trace (snd (do_call_res c f st)) = trace st @ [Call c]"
  "world (snd (do_call_res c f st)) = snd (f (world st))"
  "sigs (snd (do_call_res c f st)) = sigs st"
  "streams (snd (do_call_res c f st)) = streams st"
  by (simp_all add: do_call_res_def)

lemma send_simps [simp]:
  "fst (send env k m st) = fst (Send env k m (world st))"
  "trace (snd (send env k m st)) = trace st @ [Sent k m]"
  "world (snd (send env k m st)) = snd (Send env k m (world st))"
  "sigs (snd (send env k m st)) = sigs st"
  "streams (snd (send env k m st)) = streams st"
  by (simp_all add: send_def)

lemma new_effects_append [simp]: "trace st' = trace st @ ext \<Longrightarrow> new_effects st st' = ext"
  by (simp add: new_effects_def)

lemma new_effects_same [simp]: "new_effects st st = []"
  by (simp add: new_effects_def)

lemma broadcast_loop_trace:
  "trace (broadcast_loop env s xs l st) =
     trace st @ map (\<lambda>(u, k). Sent k (Signalling_StreamEvent s xs)) l"
  by (induction l arbitrary: st) auto

lemma broadcast_loop_keeps [simp]:
  "sigs (broadcast_loop env s xs l st) = sigs st"
  "streams (broadcast_loop env s xs l st) = streams st"
  by (induction l arbitrary: st) auto

lemma BroadcastStreamEvent_trace:
  "trace (BroadcastStreamEvent env s xs st) =
     trace st @ Broadcast s xs # map (\<lambda>(u, k). Sent k (Signalling_StreamEvent s xs)) (sigs st)"
  by (simp add: BroadcastStreamEvent_def broadcast_loop_trace)

lemma BroadcastStreamEvent_keeps [simp]:
  "sigs (BroadcastStreamEvent env s xs st) = sigs st"
  "streams (BroadcastStreamEvent env s xs st) = streams st"
  by (simp_all add: BroadcastStreamEvent_def)

subsection \<open>Descriptions that are neither offer nor answer\<close>

text \<open>
  Claim C10. A Description whose type \<open>webrtc.NewSDPType\<close> maps to neither offer nor
  answer leaves the handler's state as it was: no engine operation is invoked, nothing
  is sent, the handler does not return, and the loop goes on with the next read.
\<close>

theorem description_of_other_type_is_skipped:
  assumes "NewSDPType env typ \<noteq> SDPTypeOffer" and "NewSDPType env typ \<noteq> SDPTypeAnswer"
  shows "handle env sigStream (Signalling_Description target sdp typ) st = Continue st
       \<and> new_effects st (final (handle env sigStream (Signalling_Description target sdp typ) st)) = []
       \<and> recv_loop env sigStream (Inr (Signalling_Description target sdp typ) # rest) st
           = recv_loop env sigStream rest st"
  using assms by (cases "NewSDPType env typ") (simp_all add: handle_Description_def Let_def)

theorem description_of_other_type_is_skipped_witness:
  "handle (sim_env quiet) 1 (Signalling_Description Target_PUBLISHER ''v=0'' ''rollback'') alice_joined
     = Continue alice_joined
   \<and> recv_loop (sim_env quiet) 1
       [Inr (Signalling_Description Target_PUBLISHER ''v=0'' ''rollback''), Inl io_EOF] alice_joined
     = recv_loop (sim_env quiet) 1 [Inl io_EOF] alice_joined"
  using description_of_other_type_is_skipped
          [of "sim_env quiet" "''rollback''" 1 Target_PUBLISHER "''v=0''" alice_joined "[Inl io_EOF]"]
  by (simp add: sim_env_def)

subsection \<open>A Join that the engine refuses\<close>

text \<open>
  Claim C5, as the code has it. When \<open>peer.Join\<close> fails with an error other than
  "transport exists" and "offer ignored", the handler returns at once, without sending
  anything, and the status it returns has the code Unknown (line 173), not Internal.
\<close>

theorem join_fatal_error_returns_Unknown:
  assumes "peer_Join env sid uid (world st) = (Some err, w1)"
    and "err \<noteq> ErrTransportExists" and "err \<noteq> ErrOfferIgnored"
  shows "recv_loop env sigStream (Inr (Signalling_Join sid uid) # rest) st
           = Return (Some (Errorf Unknown [] err)) (emit (Call (C_Join sid uid)) (st\<lparr>world := w1\<rparr>))
       \<and> returned_code (recv_loop env sigStream (Inr (Signalling_Join sid uid) # rest) st) = Some Unknown"
  using assms by (simp add: handle_Join_def do_call_res_def)

theorem join_fatal_error_returns_Unknown_witness:
  "returned_code (recv_loop (sim_env (quiet\<lparr>join_err := Some (OtherError ''no room'')\<rparr>)) 1
      [Inr (Signalling_Join ''r'' ''alice'')] alice_new) = Some Unknown"
  using join_fatal_error_returns_Unknown
          [of "sim_env (quiet\<lparr>join_err := Some (OtherError ''no room'')\<rparr>)" "''r''" "''alice''"
              alice_new "OtherError ''no room''" w_init 1 "[]"]
  by (simp add: sim_env_def quiet_def alice_new_def)

text \<open>
  Claim C5 as stated fails: Alice's Join is refused by the engine with an error of its
  own, and the code reported to the caller is not Internal.
\<close>

theorem join_fatal_error_not_Internal:
  "returned_code (Signal (sim_env (quiet\<lparr>join_err := Some (OtherError ''no room'')\<rparr>)) 1 [(''bob'', 2)] w_init
      [Inr (Signalling_Join ''r'' ''alice'')]) \<noteq> Some Internal"
  by (simp add: Signal_def initial_def handle_Join_def do_call_res_def do_call_def sim_env_def quiet_def w_init_def)

subsection \<open>A Trickle before a transport exists\<close>

text \<open>
  Claim C3, as the code has it. When the candidate parses and \<open>peer.Trickle\<close> fails with
  "no transport established", the handler invokes nothing else on the engine and sends
  one Error message, whose code is InternalError (line 335); the loop goes on when that
  send succeeds, and the handler returns an Internal status when it fails.
\<close>

theorem trickle_without_transport_sends_InternalError:
  assumes "json_Unmarshal env init = Inr candidate"
    and "peer_Trickle env candidate target (world st) = (Some ErrNoTransportEstablished, w1)"
  shows "new_effects st (final (handle env sigStream (Signalling_Trickle init target) st))
           = [Call (C_Trickle candidate target),
              Sent sigStream (Signalling_Error InternalError
                                (Sprintf ''trickle error:  '' ErrNoTransportEstablished))]
       \<and> handle env sigStream (Signalling_Trickle init target) st
           = (case send env sigStream
                     (Signalling_Error InternalError (Sprintf ''trickle error:  '' ErrNoTransportEstablished))
                     (emit (Call (C_Trickle candidate target)) (st\<lparr>world := w1\<rparr>)) of
                (None, st2) \<Rightarrow> Continue st2
              | (Some serr, st2) \<Rightarrow> Return (Some (Errorf Internal [] serr)) st2)"
  using assms
  by (simp add: handle_Trickle_def do_call_res_def send_def split: option.splits prod.splits)

theorem trickle_without_transport_sends_InternalError_witness:
  "handle (sim_env (quiet\<lparr>trickle_err := Some ErrNoTransportEstablished\<rparr>)) 1
      (Signalling_Trickle ''{}'' Target_PUBLISHER) alice_new
     = Continue (alice_new\<lparr>trace :=
         [Call (C_Trickle ''{}'' Target_PUBLISHER),
          Sent 1 (Signalling_Error InternalError (Sprintf ''trickle error:  '' ErrNoTransportEstablished))]\<rparr>)"
  using trickle_without_transport_sends_InternalError
          [of "sim_env (quiet\<lparr>trickle_err := Some ErrNoTransportEstablished\<rparr>)" "''{}''" "''{}''"
              Target_PUBLISHER alice_new w_init 1]
  by (simp add: sim_env_def quiet_def alice_new_def send_def emit_def)

text \<open>
  Claim C3 as stated fails: the only message written to the connection after such a
  Trickle is an Error with the code InternalError.
\<close>

theorem trickle_without_transport_not_UnsupportedMediaType:
  "sent_to 1 (trace (final (handle (sim_env (quiet\<lparr>trickle_err := Some ErrNoTransportEstablished\<rparr>)) 1
      (Signalling_Trickle ''{}'' Target_PUBLISHER) alice_new)))
     = [Signalling_Error InternalError (Sprintf ''trickle error:  '' ErrNoTransportEstablished)]"
  by (simp add: handle_Trickle_def do_call_res_def send_def emit_def sim_env_def quiet_def alice_new_def)

lemma sent_to_append [simp]: "sent_to k (a @ b) = sent_to k a @ sent_to k b"
  by (induction k a rule: sent_to.induct) auto

lemma registrations_append [simp]: "registrations (a @ b) = registrations a @ registrations b"
  by (induction a rule: registrations.induct) auto

lemma sent_to_broadcast_sends:
  "k \<notin> snd ` set l \<Longrightarrow> sent_to k (map (\<lambda>(u, k'). Sent k' m) l) = []"
  by (induction l) auto

subsection \<open>The broadcast after an offer\<close>

text \<open>
  Claim C1, as the code has it. When the engine answers an offer, the answer is sent and
  the track extractor yields at least one stream, the handler invokes
  \<open>BroadcastStreamEvent\<close>, which writes the StreamEvent(ADD) to every stream registered in
  \<open>s.sigs\<close>, in particular to the stream of the offering session itself when it is
  registered: the loop of lines 54 to 60 leaves no entry out.
\<close>

theorem offer_broadcast_reaches_every_registered_sink:
  assumes "NewSDPType env typ = SDPTypeOffer"
    and "peer_Answer env \<lparr>SDP = sdp, Type = SDPTypeOffer\<rparr> (world st) = (Inr answer, w1)"
    and "Send env sigStream
           (Signalling_Description Target_PUBLISHER (SDP answer) (SDPType_String env (Type answer))) w1
         = (None, w2)"
    and "fst (ParseSDP env (peer_ID env w2) sdp) = newStreams"
    and "newStreams \<noteq> []"
  shows "new_effects st (final (handle env sigStream (Signalling_Description target sdp typ) st))
           = [Call (C_Answer \<lparr>SDP = sdp, Type = SDPTypeOffer\<rparr>),
              Sent sigStream (Signalling_Description Target_PUBLISHER (SDP answer)
                                (SDPType_String env (Type answer))),
              Broadcast ADD newStreams]
             @ map (\<lambda>(u, k). Sent k (Signalling_StreamEvent ADD newStreams)) (sigs st)
       \<and> (\<forall>(u, k) \<in> set (sigs st).
            Sent k (Signalling_StreamEvent ADD newStreams)
              \<in> set (new_effects st (final (handle env sigStream (Signalling_Description target sdp typ) st))))"
proof -
  let ?r = "handle env sigStream (Signalling_Description target sdp typ) st"
  have tr: "trace (final ?r) = trace st @
             ([Call (C_Answer \<lparr>SDP = sdp, Type = SDPTypeOffer\<rparr>),
              Sent sigStream (Signalling_Description Target_PUBLISHER (SDP answer)
                                (SDPType_String env (Type answer))),
              Broadcast ADD newStreams]
             @ map (\<lambda>(u, k). Sent k (Signalling_StreamEvent ADD newStreams)) (sigs st))"
    using assms
    by (simp add: handle_Description_def Let_def do_call_res_def send_def BroadcastStreamEvent_trace)
  then have eq: "new_effects st (final ?r) =
             [Call (C_Answer \<lparr>SDP = sdp, Type = SDPTypeOffer\<rparr>),
              Sent sigStream (Signalling_Description Target_PUBLISHER (SDP answer)
                                (SDPType_String env (Type answer))),
              Broadcast ADD newStreams]
             @ map (\<lambda>(u, k). Sent k (Signalling_StreamEvent ADD newStreams)) (sigs st)"
    by (rule new_effects_append)
  show ?thesis
    unfolding eq by force
qed

theorem offer_broadcast_reaches_every_registered_sink_witness:
  "Sent 1 (Signalling_StreamEvent ADD [\<lparr>Uid = ''alice'', Msid = ''s1'', Tracks = []\<rparr>])
     \<in> set (new_effects alice_joined
              (final (handle (sim_env quiet) 1 (Signalling_Description Target_PUBLISHER ''s1'' ''offer'')
                        alice_joined)))
   \<and> Sent 2 (Signalling_StreamEvent ADD [\<lparr>Uid = ''alice'', Msid = ''s1'', Tracks = []\<rparr>])
     \<in> set (new_effects alice_joined
              (final (handle (sim_env quiet) 1 (Signalling_Description Target_PUBLISHER ''s1'' ''offer'')
                        alice_joined)))"
  using offer_broadcast_reaches_every_registered_sink
          [of "sim_env quiet" "''offer''" "''s1''" alice_joined
              "\<lparr>SDP = ''v=0 answer'', Type = SDPTypeAnswer\<rparr>" "\<lparr>w_id = ''alice'', w_joined = True\<rparr>"
              1 "\<lparr>w_id = ''alice'', w_joined = True\<rparr>"
              "[\<lparr>Uid = ''alice'', Msid = ''s1'', Tracks = []\<rparr>]" Target_PUBLISHER]
  by (simp add: sim_env_def quiet_def alice_joined_def)

text \<open>
  Claim C1 as stated fails: Alice joins and sends an offer with the stream \<open>s1\<close>; the
  last message written to her own stream is the StreamEvent(ADD) of that stream.
\<close>

theorem offer_broadcast_is_sent_to_own_sink:
  "sent_to 1 (trace (final (Signal (sim_env quiet) 1 [(''bob'', 2)] w_init
      [Inr (Signalling_Join ''r'' ''alice''),
       Inr (Signalling_Description Target_PUBLISHER ''s1'' ''offer'')])))
   = [Signalling_Reply True,
      Signalling_StreamEvent ADD [],
      Signalling_Description Target_PUBLISHER ''v=0 answer'' ''answer'',
      Signalling_StreamEvent ADD [\<lparr>Uid = ''alice'', Msid = ''s1'', Tracks = []\<rparr>]]"
  by (simp add: Signal_def initial_def handle_Join_def join_reply_def handle_Description_def Let_def
        do_call_res_def do_call_def send_def emit_def otherStreams_def
        BroadcastStreamEvent_def sim_env_def quiet_def w_init_def)

subsection \<open>The owner of the streams in the snapshot of a Join\<close>

text \<open>
  Claim C2 at a concrete input. Bob publishes the track \<open>t1\<close> of the stream \<open>s1\<close>;
  Alice joins. The stream of the snapshot that is sent to Alice carries the \<open>Uid\<close>
  of Alice, the joining participant (line 198 takes \<open>uid\<close> of the Join message), and
  not the one of Bob, who publishes it.
\<close>

theorem snapshot_streams_carry_the_joining_uid:
  "sent_to 1 (trace (final (Signal (sim_env (quiet\<lparr>room := [bob]\<rparr>)) 1 [(''bob'', 2)] w_init
      [Inr (Signalling_Join ''r'' ''alice'')])))
   = [Signalling_Reply True,
      Signalling_StreamEvent ADD
        [\<lparr>Uid = ''alice'', Msid = ''s1'',
          Tracks = [\<lparr>Id' = ''t1'', Kind = ''audio'', Muted = False, Rid = []\<rparr>]\<rparr>]]"
  by (simp add: Signal_def initial_def handle_Join_def join_reply_def Let_def
        do_call_res_def do_call_def send_def emit_def otherStreams_def add_pubTrack_def
        sim_env_def quiet_def w_init_def bob_def)

subsection \<open>Failed sends while a Join is completed\<close>

text \<open>
  Claim C4 at a concrete input. Alice's outbound stream is closed, so the sends of the
  Reply and of the snapshot both fail. The results of these two sends are dropped
  (lines 181 and 223): the handler registers the stream and waits for the next message.
\<close>

theorem join_goes_on_after_failed_sends:
  "fst (Send (sim_env (quiet\<lparr>closed_sinks := [1]\<rparr>)) 1 (Signalling_Reply True)
          \<lparr>w_id = ''alice'', w_joined = True\<rparr>)
     = Some (GrpcStatus (OtherCode 14) ''transport is closing'')
   \<and> fst (Send (sim_env (quiet\<lparr>closed_sinks := [1]\<rparr>)) 1 (Signalling_StreamEvent ADD [])
          \<lparr>w_id = ''alice'', w_joined = True\<rparr>)
     = Some (GrpcStatus (OtherCode 14) ''transport is closing'')
   \<and> Signal (sim_env (quiet\<lparr>closed_sinks := [1]\<rparr>)) 1 [(''bob'', 2)] w_init
        [Inr (Signalling_Join ''r'' ''alice'')]
     = Continue
         \<lparr>world = \<lparr>w_id = ''alice'', w_joined = True\<rparr>,
          sigs = [(''bob'', 2), (''alice'', 1)],
          streams = [],
          trace = [Call C_NewPeer, Call (C_Join ''r'' ''alice''), Call C_OnPublisherTrack,
                   Sent 1 (Signalling_Reply True), Sent 1 (Signalling_StreamEvent ADD []),
                   Register ''alice'' 1]\<rparr>"
  by (simp add: Signal_def initial_def handle_Join_def join_reply_def Let_def
        do_call_res_def do_call_def send_def emit_def otherStreams_def
        sim_env_def quiet_def w_init_def)

subsection \<open>Cleanup when the handler returns on a fatal error\<close>

text \<open>
  Claim C6 at a concrete input. Alice joins and sends an offer that the engine fails to
  answer. The handler returns an Internal status; the deferred function takes her
  stream out of \<open>s.sigs\<close>, but \<open>peer.Close\<close> is never invoked: it is called on the
  path of a failed read only (line 90).
\<close>

theorem fatal_answer_error_leaves_peer_open:
  "Signal (sim_env (quiet\<lparr>answer_err := Some (OtherError ''bad sdp'')\<rparr>)) 1 [(''bob'', 2)] w_init
      [Inr (Signalling_Join ''r'' ''alice''),
       Inr (Signalling_Description Target_PUBLISHER ''s1'' ''offer'')]
   = Return (Some (Errorf Internal ''answer error: '' (OtherError ''bad sdp'')))
       \<lparr>world = \<lparr>w_id = ''alice'', w_joined = True\<rparr>,
        sigs = [(''bob'', 2)],
        streams = [],
        trace = [Call C_NewPeer, Call (C_Join ''r'' ''alice''), Call C_OnPublisherTrack,
                 Sent 1 (Signalling_Reply True), Sent 1 (Signalling_StreamEvent ADD []),
                 Register ''alice'' 1,
                 Call (C_Answer \<lparr>SDP = ''s1'', Type = SDPTypeOffer\<rparr>),
                 Unregister ''alice'']\<rparr>"
  by (simp add: Signal_def initial_def handle_Join_def join_reply_def handle_Description_def Let_def
        do_call_res_def do_call_def send_def emit_def otherStreams_def deferred_def
        sim_env_def quiet_def w_init_def)

subsection \<open>The order of the steps of a Join\<close>


lemma join_reply_Continue:
  assumes "join_reply env k uid st = Continue st'"
  shows "\<exists>snap. trace st' = trace st @ [Call C_OnPublisherTrack, Sent k (Signalling_Reply True),
                     Sent k (Signalling_StreamEvent ADD snap), Register (peer_ID env (world st')) k]
             \<and> sigs st' = AList.update (peer_ID env (world st')) k (sigs st)"
  using assms by (auto simp: join_reply_def Let_def split: option.splits)

lemma handle_Join_Continue:
  assumes "handle_Join env k sid uid st = Continue st'"
  shows "\<exists>st1 pre. join_reply env k uid st1 = Continue st' \<and> trace st1 = trace st @ pre
           \<and> registrations pre = [] \<and> sigs st1 = sigs st"
proof -
  obtain r st1 where r: "do_call_res (C_Join sid uid) (peer_Join env sid uid) st = (r, st1)"
    by (cases "do_call_res (C_Join sid uid) (peer_Join env sid uid) st")
  have t1: "trace st1 = trace st @ [Call (C_Join sid uid)]" "sigs st1 = sigs st"
    using r by (auto simp: do_call_res_def)
  show ?thesis
  proof (cases r)
    case None
    with assms r have "join_reply env k uid st1 = Continue st'"
      by (simp add: handle_Join_def)
    moreover have "registrations [Call (C_Join sid uid)] = []" by simp
    ultimately show ?thesis using t1 by blast
  next
    case (Some err)
    let ?m = "Signalling_Error InternalError (Sprintf ''join error: '' err)"
    obtain q st2 where q: "send env k ?m st1 = (q, st2)"
      by (cases "send env k ?m st1")
    have t2: "trace st2 = trace st @ [Call (C_Join sid uid), Sent k ?m]" "sigs st2 = sigs st"
      using q t1 by (auto simp: send_def)
    from assms r Some q have "join_reply env k uid st2 = Continue st'"
      by (cases q) (simp_all add: handle_Join_def split: if_splits)
    moreover have "registrations [Call (C_Join sid uid), Sent k ?m] = []" by simp
    ultimately show ?thesis using t2 by blast
  qed
qed

text \<open>
  Claim C8. Whenever a Join is completed, the effects of the handler end with the send
  of Reply(success), the send of the snapshot StreamEvent(ADD) and, last, the write of
  the connection's stream into \<open>s.sigs\<close>; nothing was written into the map before, and
  the map is otherwise as it was. Hence, for a stream that was not in the map before,
  no broadcast over the map as it is before that write reaches the stream.
\<close>

theorem join_registers_after_reply_and_snapshot:
  assumes "handle env sigStream (Signalling_Join sid uid) st = Continue st'"
  shows "(\<exists>pre snap.
           new_effects st st'
             = pre @ [Sent sigStream (Signalling_Reply True),
                      Sent sigStream (Signalling_StreamEvent ADD snap),
                      Register (peer_ID env (world st')) sigStream]
           \<and> registrations pre = [])
       \<and> sigs st' = AList.update (peer_ID env (world st')) sigStream (sigs st)
       \<and> (sigStream \<notin> snd ` set (sigs st) \<longrightarrow>
            (\<forall>s xs st0. sigs st0 = sigs st \<longrightarrow>
               sent_to sigStream (new_effects st0 (BroadcastStreamEvent env s xs st0)) = []))"
proof -
  have bc: "sigStream \<notin> snd ` set (sigs st) \<longrightarrow>
            (\<forall>s xs st0. sigs st0 = sigs st \<longrightarrow>
               sent_to sigStream (new_effects st0 (BroadcastStreamEvent env s xs st0)) = [])"
    by (simp add: BroadcastStreamEvent_trace sent_to_broadcast_sends)
  from assms have "handle_Join env sigStream sid uid st = Continue st'" by simp
  from handle_Join_Continue [OF this] obtain st1 pre where
    jr: "join_reply env sigStream uid st1 = Continue st'" and
    t1: "trace st1 = trace st @ pre" "registrations pre = []" "sigs st1 = sigs st"
    by blast
  from join_reply_Continue [OF jr] obtain snap where
    t2: "trace st' = trace st1 @ [Call C_OnPublisherTrack, Sent sigStream (Signalling_Reply True),
                     Sent sigStream (Signalling_StreamEvent ADD snap),
                     Register (peer_ID env (world st')) sigStream]"
    and sg: "sigs st' = AList.update (peer_ID env (world st')) sigStream (sigs st1)"
    by blast
  have "trace st' = trace st @ ((pre @ [Call C_OnPublisherTrack]) @
          [Sent sigStream (Signalling_Reply True),
           Sent sigStream (Signalling_StreamEvent ADD snap),
           Register (peer_ID env (world st')) sigStream])"
    using t1 t2 by simp
  then have "new_effects st st' = (pre @ [Call C_OnPublisherTrack]) @
          [Sent sigStream (Signalling_Reply True),
           Sent sigStream (Signalling_StreamEvent ADD snap),
           Register (peer_ID env (world st')) sigStream]"
    by (rule new_effects_append)
  moreover have "registrations (pre @ [Call C_OnPublisherTrack]) = []"
    using t1 by simp
  ultimately show ?thesis using sg t1 bc by metis
qed

theorem join_registers_after_reply_and_snapshot_witness:
  "handle (sim_env quiet) 1 (Signalling_Join ''r'' ''alice'') alice_new
     = Continue
         \<lparr>world = \<lparr>w_id = ''alice'', w_joined = True\<rparr>,
          sigs = [(''bob'', 2), (''alice'', 1)],
          streams = [],
          trace = [Call (C_Join ''r'' ''alice''), Call C_OnPublisherTrack,
                   Sent 1 (Signalling_Reply True), Sent 1 (Signalling_StreamEvent ADD []),
                   Register ''alice'' 1]\<rparr>
   \<and> (\<exists>pre snap.
         new_effects alice_new
           \<lparr>world = \<lparr>w_id = ''alice'', w_joined = True\<rparr>,
            sigs = [(''bob'', 2), (''alice'', 1)],
            streams = [],
            trace = [Call (C_Join ''r'' ''alice''), Call C_OnPublisherTrack,
                     Sent 1 (Signalling_Reply True), Sent 1 (Signalling_StreamEvent ADD []),
                     Register ''alice'' 1]\<rparr>
           = pre @ [Sent 1 (Signalling_Reply True), Sent 1 (Signalling_StreamEvent ADD snap),
                    Register ''alice'' 1]
         \<and> registrations pre = [])
   \<and> sent_to 1 (new_effects alice_new (BroadcastStreamEvent (sim_env quiet) ADD [] alice_new)) = []"
proof -
  let ?st' = "\<lparr>world = \<lparr>w_id = ''alice'', w_joined = True\<rparr>,
          sigs = [(''bob'', 2), (''alice'', 1)],
          streams = [],
          trace = [Call (C_Join ''r'' ''alice''), Call C_OnPublisherTrack,
                   Sent 1 (Signalling_Reply True), Sent 1 (Signalling_StreamEvent ADD []),
                   Register ''alice'' 1]\<rparr>"
  have h: "handle (sim_env quiet) 1 (Signalling_Join ''r'' ''alice'') alice_new = Continue ?st'"
    by (simp add: handle_Join_def join_reply_def Let_def do_call_res_def do_call_def send_def
          emit_def otherStreams_def sim_env_def quiet_def w_init_def alice_new_def)
  have p: "peer_ID (sim_env quiet) (world ?st') = ''alice''"
    by (simp add: sim_env_def)
  have n: "(1::nat) \<notin> snd ` set (sigs alice_new)"
    by (simp add: alice_new_def)
  from join_registers_after_reply_and_snapshot [OF h] p n h show ?thesis
    by auto
qed

end
